theory Spec2Isabelle
  imports Complex_Main "HOL-Library.Sublist"
begin

section \<open>Python values and string formatting\<close>

text \<open>
  The program is the single module \<^verbatim>\<open>audio_dictor.py\<close>. Python's unbounded integers are
  \<^typ>\<open>int\<close>, its strings are \<^typ>\<open>string\<close>. \<^verbatim>\<open>str(n)\<close> of an integer, which every
  f-string of the module applies to the ids, is the decimal numeral with a leading minus
  sign for negative numbers.
\<close>

definition digit_char :: "nat \<Rightarrow> char" where
  "digit_char d = ''0123456789'' ! d"

fun str_nat :: "nat \<Rightarrow> string" where
  "str_nat n =
     (if n < 10 then [digit_char n] else str_nat (n div 10) @ [digit_char (n mod 10)])"

declare str_nat.simps [simp del]

definition str_int :: "int \<Rightarrow> string" where
  "str_int i = (if i < 0 then CHR ''-'' # str_nat (nat (- i)) else str_nat (nat i))"

text \<open>
  \<^verbatim>\<open>time.time()\<close> returns a float; every finite float is a rational number, so a clock
  reading is a \<^typ>\<open>rat\<close>. \<^verbatim>\<open>int(x)\<close> of a float truncates towards zero.
\<close>

definition int_of_float :: "rat \<Rightarrow> int" where
  "int_of_float t = (if 0 \<le> t then \<lfloor>t\<rfloor> else \<lceil>t\<rceil>)"

text \<open>
  A Python object reference that may be \<^verbatim>\<open>None\<close>; an f-string prints \<^verbatim>\<open>None\<close> as the
  word itself.
\<close>

datatype pyval = PyNone | PyStr string

fun str_pyval :: "pyval \<Rightarrow> string" where
  "str_pyval PyNone = ''None''"
| "str_pyval (PyStr s) = s"

text \<open>
  An exception object, identified by what \<^verbatim>\<open>str(e)\<close> prints in the log. Within a run of the
  handler only exceptions that \<^verbatim>\<open>except Exception\<close> catches are considered.
\<close>

datatype exn = Exn string

fun str_exn :: "exn \<Rightarrow> string" where
  "str_exn (Exn m) = m"

section \<open>Module constants and file naming (lines 17--30, 95--97)\<close>

definition AUDIO_OUTPUT_DIR :: string where
  "AUDIO_OUTPUT_DIR = ''generated_audio''"

definition TARGET_CHAT_ENTITY :: string where
  "TARGET_CHAT_ENTITY = ''me''"

definition CHANNELS_TO_MONITOR :: "int list" where
  "CHANNELS_TO_MONITOR = [- 1001114591086]"

text \<open>
  \<^verbatim>\<open>os.path.join\<close> on POSIX paths, for two components: an absolute second component
  replaces the first, otherwise the two are joined by one slash unless the first is empty
  or already ends in one.
\<close>

definition os_path_join :: "string \<Rightarrow> string \<Rightarrow> string" where
  "os_path_join a b =
     (if b \<noteq> [] \<and> hd b = CHR ''/'' then b
      else if a = [] \<or> last a = CHR ''/'' then a @ b
      else a @ CHR ''/'' # b)"

text \<open>
  \<^verbatim>\<open>os.path.abspath(p)\<close> joins the current working directory and a relative \<^verbatim>\<open>p\<close> and
  normalises the result. The working directory \<open>cwd\<close> is a parameter of the model: it is
  what \<^verbatim>\<open>os.getcwd()\<close> returns, an absolute path that is already normal. The only path the
  module passes has the two components \<^verbatim>\<open>generated_audio\<close> and \<^verbatim>\<open>msg_..._.wav\<close>, neither of
  them empty, \<^verbatim>\<open>.\<close> or \<^verbatim>\<open>..\<close>, so normalisation leaves the joined path as it is.
\<close>

definition os_path_abspath :: "string \<Rightarrow> string \<Rightarrow> string" where
  "os_path_abspath cwd p = os_path_join cwd p"

text \<open>Line 95: \<^verbatim>\<open>f"msg_{abs(chat_id)}_{message_id}_{int(time.time())}"\<close>.\<close>

definition base_filename :: "int \<Rightarrow> int \<Rightarrow> rat \<Rightarrow> string" where
  "base_filename chat_id message_id now =
     ''msg_'' @ str_int (abs chat_id) @ ''_'' @ str_int message_id @ ''_''
       @ str_int (int_of_float now)"

text \<open>Line 96.\<close>

definition wav_filepath :: "string \<Rightarrow> int \<Rightarrow> int \<Rightarrow> rat \<Rightarrow> string" where
  "wav_filepath cwd chat_id message_id now =
     os_path_abspath cwd
       (os_path_join AUDIO_OUTPUT_DIR (base_filename chat_id message_id now @ ''.wav''))"

text \<open>Line 97.\<close>

definition mp3_filepath :: "int \<Rightarrow> int \<Rightarrow> rat \<Rightarrow> string" where
  "mp3_filepath chat_id message_id now =
     os_path_join AUDIO_OUTPUT_DIR (base_filename chat_id message_id now @ ''.mp3'')"

section \<open>The outside world of the handler\<close>

text \<open>
  A Telethon entity as \<^verbatim>\<open>getattr\<close> sees it: each of the two attributes the handler asks for
  may be absent (\<open>None\<close> here), and a present attribute holds a string or Python's \<^verbatim>\<open>None\<close>.
\<close>

record entity =
  ent_title :: "pyval option"
  ent_username :: "pyval option"

text \<open>
  The event: \<^verbatim>\<open>event.chat_id\<close>, \<^verbatim>\<open>event.id\<close> and \<^verbatim>\<open>event.message.text\<close>, which is a string or
  \<^verbatim>\<open>None\<close>.
\<close>

record event =
  chat_id :: int
  msg_id :: int
  msg_text :: "string option"

text \<open>
  A numpy array is its shape and its elements in row-major order. \<^verbatim>\<open>squeeze()\<close> drops the
  axes of length one, \<^verbatim>\<open>size\<close> is the product of the axis lengths.
\<close>

record ndarray =
  shape :: "nat list"
  elems :: "rat list"

definition squeeze :: "ndarray \<Rightarrow> ndarray" where
  "squeeze a = a\<lparr>shape := filter (\<lambda>d. d \<noteq> 1) (shape a)\<rparr>"

definition nd_size :: "ndarray \<Rightarrow> nat" where
  "nd_size a = prod_list (shape a)"

text \<open>The dictionary the TTS pipeline returns, read at the keys of lines 87 and 88.\<close>

record tts_output =
  audio :: ndarray
  sampling_rate :: int

text \<open>
  How \<^verbatim>\<open>subprocess.run(..., check=True, capture_output=True, text=True)\<close> ends: it returns
  with the captured standard output, or raises \<^verbatim>\<open>CalledProcessError\<close> (non-zero status,
  carrying the captured standard error), \<^verbatim>\<open>FileNotFoundError\<close> (no such program), or some
  other exception.
\<close>

datatype proc_result =
    Completed string
  | CalledProcessError string
  | FileNotFoundError
  | OtherError exn

text \<open>
  What the configured program path is when \<^verbatim>\<open>subprocess.run\<close> is called, and how the call ends
  in each case. An unset path (\<^verbatim>\<open>os.getenv\<close> returned \<^verbatim>\<open>None\<close>) makes it raise \<^verbatim>\<open>TypeError\<close>, a
  path that names no file \<^verbatim>\<open>FileNotFoundError\<close>, a file without execute permission
  \<^verbatim>\<open>PermissionError\<close>; a program that starts runs to its exit status, with its captured
  standard output and standard error. Only the last is a path that resolves to an
  executable. The texts of the two exceptions are shortened.
\<close>

datatype tool_path = PathUnset | NoSuchFile | NotExecutable | Executable nat string string

fun resolves :: "tool_path \<Rightarrow> bool" where
  "resolves (Executable status out err) = True"
| "resolves p = False"

definition subprocess_run :: "tool_path \<Rightarrow> proc_result" where
  "subprocess_run p =
     (case p of
        PathUnset \<Rightarrow> OtherError (Exn ''expected str, bytes or os.PathLike object, not NoneType'')
      | NoSuchFile \<Rightarrow> FileNotFoundError
      | NotExecutable \<Rightarrow> OtherError (Exn ''[Errno 13] Permission denied'')
      | Executable status out err \<Rightarrow>
          if status = 0 then Completed out else CalledProcessError err)"

text \<open>
  How \<^verbatim>\<open>sf.write\<close> ends: it raises or returns, and in either case the flag tells whether
  the file is on disk at the path afterwards.
\<close>

datatype write_result = WriteRaised exn bool | WriteReturned bool

text \<open>
  Everything one run of the handler asks of the outside world, in the order of the calls.
  The answers are parameters of the model; the handler decides only what it does with them.
  \<^item> \<open>env_get_entity\<close>: \<^verbatim>\<open>client.get_entity(chat_id)\<close> at line 69, \<open>Inl\<close> when it raised;
  \<^item> \<open>env_tts\<close>: lines 86--90, \<open>Inl\<close> when the pipeline call, a key lookup, \<^verbatim>\<open>int\<close> or
    \<^verbatim>\<open>squeeze\<close> raised;
  \<^item> \<open>env_time\<close>: the clock reading of line 95;
  \<^item> \<open>env_sf_write\<close>: \<^verbatim>\<open>sf.write\<close> at line 100;
  \<^item> \<open>env_wave_open\<close>: \<^verbatim>\<open>wave.open\<close> at line 111, the exception it raised if any;
  \<^item> \<open>env_access\<close>: \<^verbatim>\<open>os.access(wav_filepath, os.R_OK)\<close> at line 118;
  \<^item> \<open>env_ffmpeg\<close>: \<^verbatim>\<open>subprocess.run\<close> at line 124;
  \<^item> \<open>env_remove\<close>: \<^verbatim>\<open>os.remove\<close> at line 140, the exception it raised if any;
  \<^item> \<open>env_target\<close>: \<^verbatim>\<open>client.get_entity(TARGET_CHAT_ENTITY)\<close> at line 151;
  \<^item> \<open>env_send_file\<close>: \<^verbatim>\<open>client.send_file\<close> at line 152, the exception it raised if any.
\<close>

record env =
  env_get_entity :: "exn + entity"
  env_tts :: "exn + tts_output"
  env_time :: rat
  env_sf_write :: write_result
  env_wave_open :: "exn option"
  env_access :: bool
  env_ffmpeg :: proc_result
  env_remove :: "exn option"
  env_target :: "exn + string"
  env_send_file :: "exn option"

text \<open>Process-wide configuration read at import: line 18 and the working directory.\<close>

record config =
  FFMPEG_PATH :: pyval
  cwd :: string

datatype level = INFO | WARNING | ERROR

text \<open>What the handler does to the outside world: log records and external calls, in order.\<close>

datatype action =
    Log level string
  | GetEntityChat int
  | GetEntityTarget string
  | TtsPipeline string
  | SfWrite string ndarray int
  | Sleep nat
  | WaveOpen string
  | OsAccess string
  | SubprocessRun "pyval list"
  | OsRemove string
  | SendFile string string string

record world =
  files :: "string set"
  trace :: "action list"

definition act :: "action \<Rightarrow> world \<Rightarrow> world" where
  "act a w = w\<lparr>trace := trace w @ [a]\<rparr>"

definition logging :: "level \<Rightarrow> string \<Rightarrow> world \<Rightarrow> world" where
  "logging l m w = act (Log l m) w"

text \<open>
  The return points of the handler, by source line: \<open>NoText\<close> 79, \<open>EmptyAudio\<close> 93,
  \<open>WavMissing\<close> 107, \<open>WavUnreadable\<close> 115, \<open>WavNoPermission\<close> 120, \<open>ConvertFailed\<close> 133,
  \<open>FfmpegNotFound\<close> 136, \<open>StageError\<close> 147; \<open>SendError\<close> is the end of the function through
  the handler of line 155, \<open>Sent\<close> its end after line 154. The source has no exception
  classes of its own: a failed stage is a log record and a \<^verbatim>\<open>return\<close>.
\<close>

datatype outcome =
    NoText
  | EmptyAudio
  | WavMissing
  | WavUnreadable exn
  | WavNoPermission
  | ConvertFailed string
  | FfmpegNotFound
  | StageError exn
  | SendError exn
  | Sent

text \<open>How the body of the outer \<^verbatim>\<open>try\<close> (lines 86--143) ends.\<close>

datatype body_result = Done string | Returned outcome | Raised exn

definition sq :: string where
  "sq = [CHR 0x27]"

definition dq :: string where
  "dq = [CHR 0x22]"

section \<open>The handler (lines 62--156)\<close>

text \<open>Line 70: the two nested \<^verbatim>\<open>getattr\<close> calls with their defaults.\<close>

definition chat_title_of :: "entity \<Rightarrow> int \<Rightarrow> pyval" where
  "chat_title_of ent cid =
     (case ent_title ent of
        Some t \<Rightarrow> t
      | None \<Rightarrow> (case ent_username ent of Some u \<Rightarrow> u | None \<Rightarrow> PyStr (str_int cid)))"

text \<open>Lines 66--72.\<close>

definition resolve_chat_title :: "env \<Rightarrow> event \<Rightarrow> world \<Rightarrow> pyval \<times> world" where
  "resolve_chat_title env ev w =
     (let w1 = act (GetEntityChat (chat_id ev)) w in
      case env_get_entity env of
        Inr ent \<Rightarrow> (chat_title_of ent (chat_id ev), w1)
      | Inl e \<Rightarrow>
          (PyStr ''Unknown'',
           logging WARNING
             (''Could not retrieve chat title for '' @ str_int (chat_id ev) @ '': '' @ str_exn e)
             w1))"

text \<open>Line 153.\<close>

definition caption :: "pyval \<Rightarrow> int \<Rightarrow> string" where
  "caption chat_title message_id =
     ''Audio from channel '' @ sq @ str_pyval chat_title @ sq @ '' (Message #''
       @ str_int message_id @ '')''"

text \<open>Lines 149--156.\<close>

definition send_audio :: "env \<Rightarrow> event \<Rightarrow> pyval \<Rightarrow> string \<Rightarrow> world \<Rightarrow> world \<times> outcome" where
  "send_audio env ev chat_title mp3 w =
     (let w1 = act (GetEntityTarget TARGET_CHAT_ENTITY) w in
      case env_target env of
        Inl e \<Rightarrow>
          (logging ERROR
             (''Error sending MP3 file for message ['' @ str_int (msg_id ev) @ '']: '' @ str_exn e)
             w1,
           SendError e)
      | Inr target \<Rightarrow>
          (let w2 = act (SendFile target mp3 (caption chat_title (msg_id ev))) w1 in
           case env_send_file env of
             Some e \<Rightarrow>
               (logging ERROR
                  (''Error sending MP3 file for message ['' @ str_int (msg_id ev) @ '']: ''
                     @ str_exn e)
                  w2,
                SendError e)
           | None \<Rightarrow>
               (logging INFO
                  (''MP3 file successfully sent to '' @ sq @ TARGET_CHAT_ENTITY @ sq @ ''.'') w2,
                Sent)))"

text \<open>
  Lines 138--143: \<^verbatim>\<open>os.remove\<close> takes the file off the disk when it returns and leaves the
  disk as it is when it raises; the exception is logged and goes no further.
\<close>

definition delete_wav :: "env \<Rightarrow> string \<Rightarrow> world \<Rightarrow> world" where
  "delete_wav env wav w =
     (let w1 = act (OsRemove wav) w in
      case env_remove env of
        None \<Rightarrow>
          logging INFO (''Temporary WAV file deleted: '' @ wav) (w1\<lparr>files := files w1 - {wav}\<rparr>)
      | Some e \<Rightarrow> logging ERROR (''Error deleting WAV file: '' @ str_exn e) w1)"

text \<open>
  Lines 122--143. The transcoder is an external program: when it completes with status zero
  it has written the output file, otherwise the disk is taken to be unchanged. An exception
  other than the two caught at lines 131 and 134 leaves the inner \<^verbatim>\<open>try\<close>.
\<close>

definition convert_to_mp3 ::
  "config \<Rightarrow> env \<Rightarrow> string \<Rightarrow> string \<Rightarrow> world \<Rightarrow> world \<times> body_result" where
  "convert_to_mp3 cfg env wav mp3 w =
     (let w1 = act (SubprocessRun [FFMPEG_PATH cfg, PyStr ''-i'', PyStr wav, PyStr mp3]) w in
      case env_ffmpeg env of
        Completed out \<Rightarrow>
          (let w2 = logging INFO (''MP3 file saved: '' @ mp3) (w1\<lparr>files := insert mp3 (files w1)\<rparr>);
               w3 = logging INFO (''FFmpeg output: '' @ out) w2
           in (delete_wav env wav w3, Done mp3))
      | CalledProcessError err \<Rightarrow>
          (logging ERROR (''Error converting to MP3: '' @ err) w1, Returned (ConvertFailed err))
      | FileNotFoundError \<Rightarrow>
          (logging ERROR
             (''FFmpeg not found at path: '' @ str_pyval (FFMPEG_PATH cfg)
                @ ''. Check the path or install FFmpeg.'')
             w1,
           Returned FfmpegNotFound)
      | OtherError e \<Rightarrow> (w1, Raised e))"

text \<open>Lines 104--120, then the conversion.\<close>

definition verify_wav ::
  "config \<Rightarrow> env \<Rightarrow> string \<Rightarrow> string \<Rightarrow> world \<Rightarrow> world \<times> body_result" where
  "verify_wav cfg env wav mp3 w =
     (if wav \<notin> files w then
        (logging ERROR (''File '' @ wav @ '' not found after saving!'') w, Returned WavMissing)
      else
        (let w1 = act (WaveOpen wav) w in
         case env_wave_open env of
           Some e \<Rightarrow>
             (logging ERROR (''Error opening WAV file with wave: '' @ str_exn e) w1,
              Returned (WavUnreadable e))
         | None \<Rightarrow>
             (let w2 = logging INFO (''File '' @ wav @ '' successfully opened with wave.'') w1;
                  w3 = act (OsAccess wav) w2
              in if \<not> env_access env then
                   (logging ERROR (''No read permissions for file '' @ wav @ ''!'') w3,
                    Returned WavNoPermission)
                 else convert_to_mp3 cfg env wav mp3 w3)))"

text \<open>The disk after \<^verbatim>\<open>sf.write\<close>: the file is there or not, as the call left it.\<close>

definition written :: "string \<Rightarrow> bool \<Rightarrow> world \<Rightarrow> world" where
  "written wav present w =
     w\<lparr>files := (if present then insert wav (files w) else files w - {wav})\<rparr>"

text \<open>Lines 86--143, the body of the outer \<^verbatim>\<open>try\<close>.\<close>

definition try_body ::
  "config \<Rightarrow> env \<Rightarrow> event \<Rightarrow> string \<Rightarrow> world \<Rightarrow> world \<times> body_result" where
  "try_body cfg env ev message_text w =
     (let w1 = act (TtsPipeline message_text) w in
      case env_tts env of
        Inl e \<Rightarrow> (w1, Raised e)
      | Inr output \<Rightarrow>
          (let speech_np = squeeze (audio output) in
           if nd_size speech_np = 0 then
             (logging ERROR ''speech_np array is empty. Check TTS pipeline output.'' w1,
              Returned EmptyAudio)
           else
             (let wav = wav_filepath (cwd cfg) (chat_id ev) (msg_id ev) (env_time env);
                  mp3 = mp3_filepath (chat_id ev) (msg_id ev) (env_time env);
                  w2 = act (SfWrite wav speech_np (sampling_rate output)) w1
              in case env_sf_write env of
                   WriteRaised e present \<Rightarrow> (written wav present w2, Raised e)
                 | WriteReturned present \<Rightarrow>
                     (let w3 = act (Sleep 1) (written wav present w2);
                          w4 = logging INFO (''WAV file saved: '' @ wav) w3
                      in verify_wav cfg env wav mp3 w4))))"

text \<open>Lines 63--156. \<^verbatim>\<open>not message_text\<close> holds of \<^verbatim>\<open>None\<close> and of the empty string.\<close>

definition handler_new_message :: "config \<Rightarrow> env \<Rightarrow> event \<Rightarrow> world \<Rightarrow> world \<times> outcome" where
  "handler_new_message cfg env ev w =
     (let (chat_title, w1) = resolve_chat_title env ev w;
          w2 = logging INFO
                 (''New message ['' @ str_int (msg_id ev) @ ''] in chat '' @ sq
                    @ str_pyval chat_title @ sq @ '' ('' @ str_int (chat_id ev) @ '')'')
                 w1
      in case msg_text ev of
           None \<Rightarrow>
             (logging INFO
                (''Message ['' @ str_int (msg_id ev) @ ''] in '' @ sq @ str_pyval chat_title @ sq
                   @ '' contains no text. Skipping.'')
                w2,
              NoText)
         | Some message_text \<Rightarrow>
             if message_text = [] then
               (logging INFO
                  (''Message ['' @ str_int (msg_id ev) @ ''] in '' @ sq @ str_pyval chat_title @ sq
                     @ '' contains no text. Skipping.'')
                  w2,
                NoText)
             else
               (let w3 = logging INFO
                           (''Message text ['' @ str_int (msg_id ev) @ '']: '' @ dq
                              @ take 100 message_text @ ''...'' @ dq)
                           w2;
                    w4 = logging INFO
                           (''Starting TTS for message ['' @ str_int (msg_id ev) @ '']...'') w3
                in case try_body cfg env ev message_text w4 of
                     (w5, Raised e) \<Rightarrow>
                       (logging ERROR
                          (''Error during TTS or audio saving for message [''
                             @ str_int (msg_id ev) @ '']: '' @ str_exn e)
                          w5,
                        StageError e)
                   | (w5, Returned oc) \<Rightarrow> (w5, oc)
                   | (w5, Done mp3) \<Rightarrow> send_audio env ev chat_title mp3 w5))"

text \<open>
  The event loop hands the handler one message after the other; a run that has returned,
  at whichever return point, leaves the loop to take the next message.
\<close>

fun run_messages :: "config \<Rightarrow> world \<Rightarrow> (env \<times> event) list \<Rightarrow> world \<times> outcome list" where
  "run_messages cfg w [] = (w, [])"
| "run_messages cfg w ((env, ev) # rest) =
     (let (w1, oc) = handler_new_message cfg env ev w;
          (w2, ocs) = run_messages cfg w1 rest
      in (w2, oc # ocs))"

text \<open>Projections of a trace used to state what a run did.\<close>

fun sent_files :: "action list \<Rightarrow> (string \<times> string) list" where
  "sent_files [] = []"
| "sent_files (SendFile target path cap # tr) = (path, cap) # sent_files tr"
| "sent_files (a # tr) = sent_files tr"

fun is_transcode :: "action \<Rightarrow> bool" where
  "is_transcode (SubprocessRun args) = True"
| "is_transcode a = False"

fun is_after_transcode :: "action \<Rightarrow> bool" where
  "is_after_transcode (OsRemove p) = True"
| "is_after_transcode (GetEntityTarget t) = True"
| "is_after_transcode (SendFile t p c) = True"
| "is_after_transcode a = False"

fun is_file_write :: "action \<Rightarrow> bool" where
  "is_file_write (SfWrite p a r) = True"
| "is_file_write (SubprocessRun args) = True"
| "is_file_write a = False"

section \<open>Start of the process (module level, \<^verbatim>\<open>main\<close>, and the \<^verbatim>\<open>__main__\<close> block)\<close>

text \<open>
  What is raised into the script: an \<^verbatim>\<open>Exception\<close>, which \<^verbatim>\<open>except Exception\<close> catches, or
  \<^verbatim>\<open>KeyboardInterrupt\<close>, which it does not.
\<close>

datatype raised = Exception exn | KeyboardInterrupt

text \<open>How \<^verbatim>\<open>client.run_until_disconnected()\<close> ends, if it ends.\<close>

datatype run_end = Disconnected | RunRaised raised | NeverReturns

text \<open>
  The answers of the outside world while the script starts, in the order of the source:
  the imports, credential parsing and client construction (lines 1--39), loading the TTS
  pipeline (line 44), the output directory (lines 56--57), the transcoder's version check
  (line 186), \<^verbatim>\<open>client.start\<close> (line 167) and the event loop (line 180).
\<close>

record boot_env =
  be_import :: "exn option"
  be_tts_load :: "exn option"
  be_dir_exists :: bool
  be_makedirs :: "exn option"
  be_ffmpeg_version :: proc_result
  be_client_start :: "raised option"
  be_run :: run_end

text \<open>The external steps of the start, recorded in order (console output is left out).\<close>

datatype boot_action =
    LoadTts
  | MakeDirs
  | RegisterHandler "int list"
  | FfmpegVersion
  | ClientStart
  | RunUntilDisconnected

datatype main_result = MainReturned | MainRaised raised | MainBlocked

text \<open>How the process ends: with an exit status, or not at all.\<close>

datatype disposition = Exit nat | Running

text \<open>Lines 160--181. The channel list is the module constant, taken as a parameter.\<close>

definition main :: "boot_env \<Rightarrow> int list \<Rightarrow> boot_action list \<Rightarrow> main_result \<times> boot_action list" where
  "main be channels tr =
     (let tr1 = tr @ [ClientStart] in
      case be_client_start be of
        Some r \<Rightarrow> (MainRaised r, tr1)
      | None \<Rightarrow>
          if channels = [] then (MainReturned, tr1)
          else
            (let tr2 = tr1 @ [RunUntilDisconnected] in
             case be_run be of
               Disconnected \<Rightarrow> (MainReturned, tr2)
             | RunRaised r \<Rightarrow> (MainRaised r, tr2)
             | NeverReturns \<Rightarrow> (MainBlocked, tr2)))"

text \<open>
  The whole script. An exception that nothing catches ends the interpreter with status 1;
  \<^verbatim>\<open>exit()\<close> at line 53 ends it with status 0, \<^verbatim>\<open>exit(1)\<close> at lines 197, 202 and 207 with
  status 1; falling off the end of the script, also after either handler of lines 212--215,
  is status 0. Line 192 indexes the first line of the version output inside the \<^verbatim>\<open>try\<close>, so
  an empty output raises \<^verbatim>\<open>IndexError\<close> there and takes the branch of line 203.
\<close>

definition run_script :: "boot_env \<Rightarrow> int list \<Rightarrow> disposition \<times> boot_action list" where
  "run_script be channels =
     (case be_import be of
        Some e \<Rightarrow> (Exit 1, [])
      | None \<Rightarrow>
          (case be_tts_load be of
             Some e \<Rightarrow> (Exit 0, [LoadTts])
           | None \<Rightarrow>
               (let tr1 = [LoadTts] @ (if be_dir_exists be then [] else [MakeDirs]) in
                if \<not> be_dir_exists be \<and> be_makedirs be \<noteq> None then (Exit 1, tr1)
                else
                  (let tr2 = tr1 @ [RegisterHandler channels, FfmpegVersion] in
                   case be_ffmpeg_version be of
                     FileNotFoundError \<Rightarrow> (Exit 1, tr2)
                   | CalledProcessError err \<Rightarrow> (Exit 1, tr2)
                   | OtherError e \<Rightarrow> (Exit 1, tr2)
                   | Completed out \<Rightarrow>
                       if out = [] then (Exit 1, tr2)
                       else
                         (case main be channels tr2 of
                            (MainReturned, tr3) \<Rightarrow> (Exit 0, tr3)
                          | (MainRaised r, tr3) \<Rightarrow> (Exit 0, tr3)
                          | (MainBlocked, tr3) \<Rightarrow> (Running, tr3))))))"

section \<open>A concrete run\<close>

text \<open>
  One message of the monitored channel, and an outside world in which every call succeeds.
  The examples below vary one answer at a time.
\<close>

definition demo_config :: config where
  "demo_config = \<lparr>FFMPEG_PATH = PyStr ''/usr/bin/ffmpeg'', cwd = ''/home/bot''\<rparr>"

definition demo_event :: event where
  "demo_event = \<lparr>chat_id = - 1001114591086, msg_id = 42, msg_text = Some ''Hello world''\<rparr>"

definition demo_output :: tts_output where
  "demo_output = \<lparr>audio = \<lparr>shape = [1, 3], elems = [0, 1 / 2, - 1 / 2]\<rparr>, sampling_rate = 16000\<rparr>"

definition demo_empty_output :: tts_output where
  "demo_empty_output = \<lparr>audio = \<lparr>shape = [1, 0], elems = []\<rparr>, sampling_rate = 16000\<rparr>"

definition demo_env :: env where
  "demo_env =
     \<lparr>env_get_entity = Inr \<lparr>ent_title = Some (PyStr ''News''), ent_username = None\<rparr>,
      env_tts = Inr demo_output,
      env_time = 6800000001 / 4,
      env_sf_write = WriteReturned True,
      env_wave_open = None,
      env_access = True,
      env_ffmpeg = Completed ''size=1kB'',
      env_remove = None,
      env_target = Inr ''self'',
      env_send_file = None\<rparr>"

definition demo_world :: world where
  "demo_world = \<lparr>files = {}, trace = []\<rparr>"

definition demo_wav :: string where
  "demo_wav = ''/home/bot/generated_audio/msg_1001114591086_42_1700000000.wav''"

definition demo_mp3 :: string where
  "demo_mp3 = ''generated_audio/msg_1001114591086_42_1700000000.mp3''"

definition demo_boot :: boot_env where
  "demo_boot =
     \<lparr>be_import = None, be_tts_load = None, be_dir_exists = True, be_makedirs = None,
      be_ffmpeg_version = Completed ''ffmpeg version 6.0'', be_client_start = None,
      be_run = Disconnected\<rparr>"

section \<open>Auxiliary facts\<close>

subsection \<open>Decimal numerals and file names\<close>

lemma digit_char_inj: "a < 10 \<Longrightarrow> b < 10 \<Longrightarrow> digit_char a = digit_char b \<Longrightarrow> a = b"
  unfolding digit_char_def
  by (simp add: nth_eq_iff_index_eq)

lemma digit_char_in: "d < 10 \<Longrightarrow> digit_char d \<in> set ''0123456789''"
  unfolding digit_char_def by (rule nth_mem) simp

lemma str_nat_not_Nil: "str_nat n \<noteq> []"
  by (subst str_nat.simps) simp

lemma str_nat_digits: "set (str_nat n) \<subseteq> set ''0123456789''"
proof (induction n rule: str_nat.induct)
  case (1 n)
  show ?case
  proof (cases "n < 10")
    case True
    then show ?thesis using digit_char_in[of n] by (subst str_nat.simps) simp
  next
    case False
    have "n mod 10 < 10" by simp
    from digit_char_in[OF this] 1[OF False] False show ?thesis
      by (subst str_nat.simps) simp
  qed
qed

lemma str_nat_inj: "str_nat a = str_nat b \<Longrightarrow> a = b"
proof (induction a arbitrary: b rule: str_nat.induct)
  case (1 n)
  show ?case
  proof (cases "n < 10")
    case True
    show ?thesis
    proof (cases "b < 10")
      case True
      with \<open>n < 10\<close> 1(2) show ?thesis
        by (simp add: str_nat.simps[of n] str_nat.simps[of b] digit_char_inj)
    next
      case False
      with \<open>n < 10\<close> 1(2) str_nat_not_Nil[of "b div 10"] show ?thesis
        by (simp add: str_nat.simps[of n] str_nat.simps[of b] append_eq_Cons_conv)
    qed
  next
    case False
    note nbig = this
    show ?thesis
    proof (cases "b < 10")
      case True
      with nbig 1(2) str_nat_not_Nil[of "n div 10"] show ?thesis
        by (simp add: str_nat.simps[of n] str_nat.simps[of b] Cons_eq_append_conv)
    next
      case False
      with nbig 1(2) have e: "str_nat (n div 10) = str_nat (b div 10)"
        and d: "digit_char (n mod 10) = digit_char (b mod 10)"
        by (simp_all add: str_nat.simps[of n] str_nat.simps[of b])
      from 1(1)[OF nbig e] have "n div 10 = b div 10" .
      moreover from d have "n mod 10 = b mod 10" by (intro digit_char_inj) simp_all
      ultimately show ?thesis by (metis div_mult_mod_eq)
    qed
  qed
qed

lemma str_int_inj: "str_int a = str_int b \<Longrightarrow> a = b"
proof -
  assume e: "str_int a = str_int b"
  have nm: "hd (str_nat k) \<noteq> CHR ''-''" for k
  proof -
    have "hd (str_nat k) \<in> set (str_nat k)" using str_nat_not_Nil by simp
    with str_nat_digits[of k] show ?thesis by auto
  qed
  show ?thesis
  proof (cases "a < 0")
    case True
    show ?thesis
    proof (cases "b < 0")
      case True
      with \<open>a < 0\<close> e have "nat (- a) = nat (- b)" by (simp add: str_int_def str_nat_inj)
      with True \<open>a < 0\<close> show ?thesis by simp
    next
      case False
      with \<open>a < 0\<close> e have "hd (str_nat (nat b)) = CHR ''-''"
        by (simp add: str_int_def) (metis list.sel(1))
      with nm[of "nat b"] show ?thesis by simp
    qed
  next
    case False
    show ?thesis
    proof (cases "b < 0")
      case True
      with False e have "hd (str_nat (nat a)) = CHR ''-''"
        by (simp add: str_int_def)
      with nm[of "nat a"] show ?thesis by simp
    next
      case False
      with \<open>\<not> a < 0\<close> e have "nat a = nat b" by (simp add: str_int_def str_nat_inj)
      with False \<open>\<not> a < 0\<close> show ?thesis by simp
    qed
  qed
qed

lemma str_int_no_underscore: "CHR ''_'' \<notin> set (str_int i)"
  using str_nat_digits[of "nat i"] str_nat_digits[of "nat (- i)"]
  by (auto simp: str_int_def)

lemma split_at_sep:
  "c \<notin> set a \<Longrightarrow> c \<notin> set a' \<Longrightarrow> a @ c # r = a' @ c # r' \<Longrightarrow> a = a' \<and> r = r'"
proof (induction a arbitrary: a')
  case Nil
  then show ?case by (cases a') auto
next
  case (Cons x xs)
  then show ?case by (cases a') auto
qed

lemma base_filename_inj:
  "base_filename c m t = base_filename c' m' t' \<longleftrightarrow>
     abs c = abs c' \<and> m = m' \<and> int_of_float t = int_of_float t'"
proof
  assume "base_filename c m t = base_filename c' m' t'"
  then have 1: "str_int \<bar>c\<bar> @ CHR ''_'' # (str_int m @ CHR ''_'' # str_int (int_of_float t))
     = str_int \<bar>c'\<bar> @ CHR ''_'' # (str_int m' @ CHR ''_'' # str_int (int_of_float t'))"
    by (simp add: base_filename_def)
  from split_at_sep[OF str_int_no_underscore str_int_no_underscore 1]
  have a: "str_int \<bar>c\<bar> = str_int \<bar>c'\<bar>"
    and 2: "str_int m @ CHR ''_'' # str_int (int_of_float t)
          = str_int m' @ CHR ''_'' # str_int (int_of_float t')" by simp_all
  from split_at_sep[OF str_int_no_underscore str_int_no_underscore 2]
  have "str_int m = str_int m'" "str_int (int_of_float t) = str_int (int_of_float t')"
    by simp_all
  with a show "abs c = abs c' \<and> m = m' \<and> int_of_float t = int_of_float t'"
    by (auto dest: str_int_inj)
next
  assume "abs c = abs c' \<and> m = m' \<and> int_of_float t = int_of_float t'"
  then show "base_filename c m t = base_filename c' m' t'"
    by (simp add: base_filename_def)
qed

lemma wav_filepath_eq:
  "wav_filepath d c m t =
     (if d = [] \<or> last d = CHR ''/'' then d else d @ ''/'')
       @ ''generated_audio/'' @ base_filename c m t @ ''.wav''"
  by (simp add: wav_filepath_def os_path_abspath_def os_path_join_def AUDIO_OUTPUT_DIR_def
      base_filename_def)

lemma mp3_filepath_eq:
  "mp3_filepath c m t = ''generated_audio/'' @ base_filename c m t @ ''.mp3''"
  by (simp add: mp3_filepath_def os_path_join_def AUDIO_OUTPUT_DIR_def base_filename_def)

subsection \<open>Projections of the world through the primitive steps\<close>

lemma files_act [simp]: "files (act a w) = files w"
  by (simp add: act_def)

lemma trace_act [simp]: "trace (act a w) = trace w @ [a]"
  by (simp add: act_def)

lemma files_logging [simp]: "files (logging l m w) = files w"
  by (simp add: logging_def)

lemma trace_logging [simp]: "trace (logging l m w) = trace w @ [Log l m]"
  by (simp add: logging_def)

lemma files_written [simp]:
  "files (written p b w) = (if b then insert p (files w) else files w - {p})"
  by (simp add: written_def)

lemma trace_written [simp]: "trace (written p b w) = trace w"
  by (simp add: written_def)

lemma sent_files_append [simp]: "sent_files (xs @ ys) = sent_files xs @ sent_files ys"
  by (induction xs rule: sent_files.induct) simp_all

lemma nd_size_squeeze: "nd_size (squeeze a) = nd_size a"
proof -
  have "prod_list (filter (\<lambda>d. d \<noteq> 1) xs) = prod_list xs" for xs :: "nat list"
    by (induction xs) simp_all
  then show ?thesis by (simp add: nd_size_def squeeze_def)
qed

lemma wav_ne_mp3: "wav_filepath d c m t \<noteq> mp3_filepath c' m' t'"
proof
  assume "wav_filepath d c m t = mp3_filepath c' m' t'"
  then have "last (wav_filepath d c m t) = last (mp3_filepath c' m' t')" by simp
  then show False by (simp add: wav_filepath_eq mp3_filepath_eq)
qed

lemma resolve_chat_title_world [simp]:
  "trace (snd (resolve_chat_title env ev w)) =
     trace w @ GetEntityChat (chat_id ev) #
       (case env_get_entity env of
          Inl e \<Rightarrow> [Log WARNING (''Could not retrieve chat title for '' @ str_int (chat_id ev)
                                   @ '': '' @ str_exn e)]
        | Inr ent \<Rightarrow> [])"
  "files (snd (resolve_chat_title env ev w)) = files w"
  by (simp_all add: resolve_chat_title_def Let_def split: sum.splits)

lemma filter_resolve [simp]:
  "filter is_transcode (trace (snd (resolve_chat_title env ev w))) = filter is_transcode (trace w)"
  "filter is_after_transcode (trace (snd (resolve_chat_title env ev w)))
     = filter is_after_transcode (trace w)"
  "filter is_file_write (trace (snd (resolve_chat_title env ev w)))
     = filter is_file_write (trace w)"
  "sent_files (trace (snd (resolve_chat_title env ev w))) = sent_files (trace w)"
  by (simp_all split: sum.splits)

subsection \<open>What each stage returns, leaves on disk, and sends\<close>

lemma send_audio_snd:
  "snd (send_audio env ev title mp3 w) =
     (case env_target env of
        Inl e \<Rightarrow> SendError e
      | Inr target \<Rightarrow> (case env_send_file env of Some e \<Rightarrow> SendError e | None \<Rightarrow> Sent))"
  by (simp add: send_audio_def Let_def split: sum.split option.split)

lemma send_audio_files: "files (fst (send_audio env ev title mp3 w)) = files w"
  by (simp add: send_audio_def Let_def split: sum.split option.split)

lemma send_audio_sent:
  "sent_files (trace (fst (send_audio env ev title mp3 w))) =
     sent_files (trace w) @
       (case env_target env of
          Inl e \<Rightarrow> []
        | Inr target \<Rightarrow> [(mp3, caption title (msg_id ev))])"
  by (simp add: send_audio_def Let_def split: sum.split option.split)

lemma convert_to_mp3_snd:
  "snd (convert_to_mp3 cfg env wav mp3 w) =
     (case env_ffmpeg env of
        Completed out \<Rightarrow> Done mp3
      | CalledProcessError err \<Rightarrow> Returned (ConvertFailed err)
      | FileNotFoundError \<Rightarrow> Returned FfmpegNotFound
      | OtherError e \<Rightarrow> Raised e)"
  by (simp add: convert_to_mp3_def Let_def split: proc_result.split)

lemma convert_to_mp3_files:
  "files (fst (convert_to_mp3 cfg env wav mp3 w)) =
     (case env_ffmpeg env of
        Completed out \<Rightarrow>
          (case env_remove env of
             None \<Rightarrow> insert mp3 (files w) - {wav}
           | Some e \<Rightarrow> insert mp3 (files w))
      | CalledProcessError err \<Rightarrow> files w
      | FileNotFoundError \<Rightarrow> files w
      | OtherError e \<Rightarrow> files w)"
  by (simp add: convert_to_mp3_def delete_wav_def Let_def split: proc_result.split option.split)

lemma convert_to_mp3_sent:
  "sent_files (trace (fst (convert_to_mp3 cfg env wav mp3 w))) = sent_files (trace w)"
  by (simp add: convert_to_mp3_def delete_wav_def Let_def split: proc_result.split option.split)

lemma verify_wav_snd:
  "snd (verify_wav cfg env wav mp3 w) =
     (if wav \<notin> files w then Returned WavMissing
      else case env_wave_open env of
             Some e \<Rightarrow> Returned (WavUnreadable e)
           | None \<Rightarrow>
               if \<not> env_access env then Returned WavNoPermission
               else snd (convert_to_mp3 cfg env wav mp3 w))"
  by (simp add: verify_wav_def Let_def convert_to_mp3_snd split: option.split)

lemma verify_wav_files:
  "files (fst (verify_wav cfg env wav mp3 w)) =
     (if wav \<in> files w \<and> env_wave_open env = None \<and> env_access env
      then files (fst (convert_to_mp3 cfg env wav mp3 w)) else files w)"
  by (simp add: verify_wav_def Let_def convert_to_mp3_files
      split: option.split proc_result.split)

lemma verify_wav_sent:
  "sent_files (trace (fst (verify_wav cfg env wav mp3 w))) = sent_files (trace w)"
  by (simp add: verify_wav_def Let_def convert_to_mp3_sent split: option.split)

lemma try_body_snd:
  "snd (try_body cfg env ev t w) =
     (case env_tts env of
        Inl e \<Rightarrow> Raised e
      | Inr out \<Rightarrow>
          if nd_size (squeeze (audio out)) = 0 then Returned EmptyAudio
          else (case env_sf_write env of
                  WriteRaised e present \<Rightarrow> Raised e
                | WriteReturned present \<Rightarrow>
                    snd (verify_wav cfg env
                           (wav_filepath (cwd cfg) (chat_id ev) (msg_id ev) (env_time env))
                           (mp3_filepath (chat_id ev) (msg_id ev) (env_time env))
                           (written (wav_filepath (cwd cfg) (chat_id ev) (msg_id ev) (env_time env))
                              present w))))"
  by (simp add: try_body_def Let_def verify_wav_snd convert_to_mp3_snd
      split: sum.split write_result.split option.split proc_result.split)

lemma try_body_files:
  "files (fst (try_body cfg env ev t w)) =
     (let wav = wav_filepath (cwd cfg) (chat_id ev) (msg_id ev) (env_time env);
          mp3 = mp3_filepath (chat_id ev) (msg_id ev) (env_time env)
      in case env_tts env of
           Inl e \<Rightarrow> files w
         | Inr out \<Rightarrow>
             if nd_size (squeeze (audio out)) = 0 then files w
             else (case env_sf_write env of
                     WriteRaised e present \<Rightarrow>
                       if present then insert wav (files w) else files w - {wav}
                   | WriteReturned present \<Rightarrow>
                       if \<not> present then files w - {wav}
                       else if env_wave_open env = None \<and> env_access env
                       then (case env_ffmpeg env of
                               Completed out \<Rightarrow>
                                 (case env_remove env of
                                    None \<Rightarrow> insert mp3 (files w) - {wav}
                                  | Some e \<Rightarrow> insert mp3 (insert wav (files w)))
                             | CalledProcessError err \<Rightarrow> insert wav (files w)
                             | FileNotFoundError \<Rightarrow> insert wav (files w)
                             | OtherError e \<Rightarrow> insert wav (files w))
                       else insert wav (files w)))"
  by (auto simp add: try_body_def Let_def verify_wav_files convert_to_mp3_files
      split: sum.split write_result.split option.split proc_result.split)

lemma try_body_sent:
  "sent_files (trace (fst (try_body cfg env ev t w))) = sent_files (trace w)"
  by (simp add: try_body_def Let_def verify_wav_sent split: sum.split write_result.split)


lemma handler_snd:
  "snd (handler_new_message cfg env ev w) =
     (case msg_text ev of
        None \<Rightarrow> NoText
      | Some t \<Rightarrow>
          if t = [] then NoText
          else (case snd (try_body cfg env ev t w) of
                  Raised e \<Rightarrow> StageError e
                | Returned oc \<Rightarrow> oc
                | Done mp3 \<Rightarrow> snd (send_audio env ev PyNone mp3 w)))"
  by (simp add: handler_new_message_def Let_def split_beta try_body_snd verify_wav_snd
      convert_to_mp3_snd send_audio_snd
      split: option.split body_result.split sum.split write_result.split proc_result.split)

lemma try_body_files_cong:
  "files w = files v \<Longrightarrow>
     files (fst (try_body cfg env ev t w)) = files (fst (try_body cfg env ev t v))"
  by (simp only: try_body_files)

lemma handler_files:
  "files (fst (handler_new_message cfg env ev w)) =
     (case msg_text ev of
        None \<Rightarrow> files w
      | Some t \<Rightarrow> if t = [] then files w else files (fst (try_body cfg env ev t w)))"
  by (auto simp add: handler_new_message_def Let_def split_beta send_audio_files
      split: option.split body_result.split intro!: try_body_files_cong)

lemma handler_sent:
  "sent_files (trace (fst (handler_new_message cfg env ev w))) =
     sent_files (trace w) @
       (case msg_text ev of
          None \<Rightarrow> []
        | Some t \<Rightarrow>
            if t = [] then []
            else (case snd (try_body cfg env ev t w) of
                    Raised e \<Rightarrow> []
                  | Returned oc \<Rightarrow> []
                  | Done mp3 \<Rightarrow>
                      (case env_target env of
                         Inl e \<Rightarrow> []
                       | Inr target \<Rightarrow>
                           [(mp3, caption (fst (resolve_chat_title env ev w)) (msg_id ev))])))"
  by (simp add: handler_new_message_def Let_def split_beta try_body_sent send_audio_sent
      try_body_snd verify_wav_snd convert_to_mp3_snd
      split: option.split body_result.split sum.split write_result.split proc_result.split)

subsection \<open>The example run, and runs that end as sent\<close>

lemmas demo_defs = demo_env_def demo_event_def demo_world_def demo_output_def demo_config_def
  nd_size_def squeeze_def

lemma int_of_float_demo: "int_of_float (6800000001 / 4) = 1700000000"
  by (simp add: int_of_float_def floor_eq_iff)

lemma int_of_float_demo': "int_of_float (6800000003 / 4) = 1700000000"
  by (simp add: int_of_float_def floor_eq_iff)

lemma str_int_demo:
  "str_int 1001114591086 = ''1001114591086''" "str_int 42 = ''42''"
  "str_int 1700000000 = ''1700000000''"
  by (simp_all add: str_int_def str_nat.simps digit_char_def)

lemma demo_wav_path: "wav_filepath ''/home/bot'' (- 1001114591086) 42 (6800000001 / 4) = demo_wav"
  by (simp add: wav_filepath_eq base_filename_def int_of_float_demo str_int_demo demo_wav_def)

lemma demo_mp3_path: "mp3_filepath (- 1001114591086) 42 (6800000001 / 4) = demo_mp3"
  by (simp add: mp3_filepath_eq base_filename_def int_of_float_demo str_int_demo demo_mp3_def)

lemma caption_demo: "caption (PyStr ''News'') 42 = ''Audio from channel '' @ sq @ ''News'' @ sq @ '' (Message #42)''"
  by (simp add: caption_def str_int_demo)

text \<open>How a run ends as sent: every answer of the outside world on the way was a success.\<close>

lemma sent_iff:
  "snd (handler_new_message cfg env ev w) = Sent \<longleftrightarrow>
     (\<exists>t out stdout target.
        msg_text ev = Some t \<and> t \<noteq> [] \<and> env_tts env = Inr out
        \<and> nd_size (squeeze (audio out)) \<noteq> 0 \<and> env_sf_write env = WriteReturned True
        \<and> env_wave_open env = None \<and> env_access env \<and> env_ffmpeg env = Completed stdout
        \<and> env_target env = Inr target \<and> env_send_file env = None)"
  by (auto simp add: handler_snd try_body_snd verify_wav_snd convert_to_mp3_snd send_audio_snd
      split: option.splits sum.splits write_result.splits proc_result.splits if_splits)

subsection \<open>The channel title\<close>







section \<open>The claims\<close>

lemmas upto_convert = handler_new_message_def try_body_def verify_wav_def convert_to_mp3_def
  Let_def split_beta

subsection \<open>File naming\<close>

text \<open>
  C9. The base name is built from the absolute value of the channel id, so a channel id and
  its negation give the same base name, and with it the same WAV and MP3 path, for equal
  message ids and clock readings: the name does not determine the channel.
\<close>

theorem base_filename_ignores_sign_of_chat_id:
  "base_filename (- c) m t = base_filename c m t
   \<and> wav_filepath d (- c) m t = wav_filepath d c m t
   \<and> mp3_filepath (- c) m t = mp3_filepath c m t
   \<and> base_filename (- 1001114591086) 42 t = base_filename 1001114591086 42 t
   \<and> (- 1001114591086 :: int) \<noteq> 1001114591086"
  by (simp add: base_filename_def wav_filepath_def mp3_filepath_def)

subsection \<open>Verification of the written file\<close>

text \<open>
  C5. After \<^verbatim>\<open>sf.write\<close> has returned, the handler checks that the file exists, that
  \<^verbatim>\<open>wave.open\<close> opens it, and that it is readable. When any of the three checks fails the run
  ends at the return point of that check (lines 107, 115, 120) and the transcoder is not
  called: the run adds no \<^verbatim>\<open>subprocess.run\<close> to the trace.
\<close>

theorem read_back_verification_guards_transcoding:
  assumes "msg_text ev = Some t" and "t \<noteq> []"
    and "env_tts env = Inr out" and "nd_size (squeeze (audio out)) \<noteq> 0"
    and "env_sf_write env = WriteReturned present"
    and "\<not> present \<or> env_wave_open env \<noteq> None \<or> \<not> env_access env"
  shows "snd (handler_new_message cfg env ev w) =
           (if \<not> present then WavMissing
            else case env_wave_open env of
                   Some e \<Rightarrow> WavUnreadable e
                 | None \<Rightarrow> WavNoPermission)
         \<and> filter is_transcode (trace (fst (handler_new_message cfg env ev w)))
             = filter is_transcode (trace w)"
proof (cases present)
  case False
  with assms(1-5) show ?thesis
    by (simp add: handler_new_message_def try_body_def verify_wav_def Let_def split_beta
        del: resolve_chat_title_world)
next
  case True
  note p = this
  show ?thesis
  proof (cases "env_wave_open env")
    case (Some e)
    with p assms(1-5) show ?thesis
      by (simp add: handler_new_message_def try_body_def verify_wav_def Let_def split_beta
        del: resolve_chat_title_world)
  next
    case None
    with p assms(6) have "\<not> env_access env" by simp
    with None p assms(1-5) show ?thesis
      by (simp add: handler_new_message_def try_body_def verify_wav_def Let_def split_beta
        del: resolve_chat_title_world)
  qed
qed

theorem read_back_verification_guards_transcoding_witness:
  "snd (handler_new_message demo_config (demo_env\<lparr>env_sf_write := WriteReturned False\<rparr>)
          demo_event demo_world) = WavMissing
   \<and> filter is_transcode
        (trace (fst (handler_new_message demo_config
                       (demo_env\<lparr>env_sf_write := WriteReturned False\<rparr>) demo_event demo_world)))
      = []
   \<and> snd (handler_new_message demo_config (demo_env\<lparr>env_access := False\<rparr>)
            demo_event demo_world) = WavNoPermission"
  using read_back_verification_guards_transcoding
          [of demo_event "''Hello world''" "demo_env\<lparr>env_sf_write := WriteReturned False\<rparr>"
              demo_output False demo_config demo_world]
        read_back_verification_guards_transcoding
          [of demo_event "''Hello world''" "demo_env\<lparr>env_access := False\<rparr>"
              demo_output True demo_config demo_world]
  by (simp add: demo_env_def demo_event_def demo_world_def demo_output_def nd_size_def
      squeeze_def)

subsection \<open>Empty synthesis output\<close>

text \<open>
  C7. When the squeezed sample array has size zero the run ends at line 93: no file is
  written (the disk is unchanged, and neither \<^verbatim>\<open>sf.write\<close> nor the transcoder is called), and
  the handler returns normally, so the messages that follow are handled as usual.
\<close>

theorem empty_audio_aborts_before_any_file:
  assumes "msg_text ev = Some t" and "t \<noteq> []"
    and "env_tts env = Inr out" and "nd_size (squeeze (audio out)) = 0"
  shows "snd (handler_new_message cfg env ev w) = EmptyAudio
         \<and> files (fst (handler_new_message cfg env ev w)) = files w
         \<and> filter is_file_write (trace (fst (handler_new_message cfg env ev w)))
             = filter is_file_write (trace w)
         \<and> run_messages cfg w ((env, ev) # rest) =
             (fst (run_messages cfg (fst (handler_new_message cfg env ev w)) rest),
              EmptyAudio # snd (run_messages cfg (fst (handler_new_message cfg env ev w)) rest))"
proof -
  have 1: "snd (handler_new_message cfg env ev w) = EmptyAudio"
    using assms by (simp add: handler_new_message_def try_body_def Let_def split_beta)
  have 2: "files (fst (handler_new_message cfg env ev w)) = files w"
    using assms by (simp add: handler_new_message_def try_body_def Let_def split_beta)
  have 3: "filter is_file_write (trace (fst (handler_new_message cfg env ev w)))
             = filter is_file_write (trace w)"
    using assms by (simp add: handler_new_message_def try_body_def Let_def split_beta
        del: resolve_chat_title_world)
  have 4: "run_messages cfg w ((env, ev) # rest) =
             (fst (run_messages cfg (fst (handler_new_message cfg env ev w)) rest),
              EmptyAudio # snd (run_messages cfg (fst (handler_new_message cfg env ev w)) rest))"
    using 1 by (simp add: split_beta)
  from 1 2 3 4 show ?thesis by simp
qed

theorem empty_audio_aborts_before_any_file_witness:
  "snd (handler_new_message demo_config (demo_env\<lparr>env_tts := Inr demo_empty_output\<rparr>)
          demo_event demo_world) = EmptyAudio
   \<and> files (fst (handler_new_message demo_config
                    (demo_env\<lparr>env_tts := Inr demo_empty_output\<rparr>) demo_event demo_world)) = {}
   \<and> filter is_file_write
        (trace (fst (handler_new_message demo_config
                       (demo_env\<lparr>env_tts := Inr demo_empty_output\<rparr>) demo_event demo_world)))
      = []
   \<and> snd (run_messages demo_config demo_world
            [(demo_env\<lparr>env_tts := Inr demo_empty_output\<rparr>, demo_event),
             (demo_env, demo_event)])
      = [EmptyAudio, Sent]"
proof -
  have s: "snd (handler_new_message demo_config demo_env demo_event w) = Sent" for w
    by (simp add: sent_iff demo_defs)
  from empty_audio_aborts_before_any_file
          [where ev = demo_event and t = "''Hello world''"
             and env = "demo_env\<lparr>env_tts := Inr demo_empty_output\<rparr>"
             and out = demo_empty_output and cfg = demo_config and w = demo_world
             and rest = "[(demo_env, demo_event)]"]
  show ?thesis
    by (simp add: demo_env_def demo_event_def demo_world_def demo_empty_output_def nd_size_def
        squeeze_def split_beta s [unfolded demo_env_def demo_event_def])
qed

subsection \<open>Transcoding\<close>

text \<open>
  C6, as the code has it. The transcoding stage has two failure returns of its own, and
  the first is narrower than a path that does not resolve to an executable: of the paths
  that do not resolve, only one that names no file makes \<^verbatim>\<open>subprocess.run\<close> raise
  \<^verbatim>\<open>FileNotFoundError\<close>, and only then the run ends at line 136. When the call raises
  \<^verbatim>\<open>CalledProcessError\<close> (the program ran and returned a non-zero status) the run ends at
  line 133 and the log record carries the program's captured error output. Any other
  exception of the call, such as those for a file that is not executable or for an unset
  path, is caught by the handler of line 145 and logged there. In every one of these cases
  the transcoder was called exactly once, and nothing of the later stages happens: no
  \<^verbatim>\<open>os.remove\<close>, no resolution of the target, no \<^verbatim>\<open>send_file\<close>.
\<close>

theorem transcoding_failure_returns:
  assumes "msg_text ev = Some t" and "t \<noteq> []"
    and "env_tts env = Inr out" and "nd_size (squeeze (audio out)) \<noteq> 0"
    and "env_sf_write env = WriteReturned True"
    and "env_wave_open env = None" and "env_access env"
    and "\<forall>stdout. env_ffmpeg env \<noteq> Completed stdout"
  shows "(env_ffmpeg env = FileNotFoundError \<longrightarrow>
            snd (handler_new_message cfg env ev w) = FfmpegNotFound)
         \<and> (env_ffmpeg env = CalledProcessError err \<longrightarrow>
              snd (handler_new_message cfg env ev w) = ConvertFailed err
              \<and> Log ERROR (''Error converting to MP3: '' @ err)
                   \<in> set (trace (fst (handler_new_message cfg env ev w))))
         \<and> (env_ffmpeg env = OtherError e \<longrightarrow>
              snd (handler_new_message cfg env ev w) = StageError e
              \<and> Log ERROR (''Error during TTS or audio saving for message [''
                             @ str_int (msg_id ev) @ '']: '' @ str_exn e)
                   \<in> set (trace (fst (handler_new_message cfg env ev w))))
         \<and> (subprocess_run p = FileNotFoundError \<longleftrightarrow> p = NoSuchFile)
         \<and> filter is_transcode (trace (fst (handler_new_message cfg env ev w)))
             = filter is_transcode (trace w) @
                 [SubprocessRun
                    [FFMPEG_PATH cfg, PyStr ''-i'',
                     PyStr (wav_filepath (cwd cfg) (chat_id ev) (msg_id ev) (env_time env)),
                     PyStr (mp3_filepath (chat_id ev) (msg_id ev) (env_time env))]]
         \<and> filter is_after_transcode (trace (fst (handler_new_message cfg env ev w)))
             = filter is_after_transcode (trace w)"
proof -
  have p: "subprocess_run p = FileNotFoundError \<longleftrightarrow> p = NoSuchFile"
    by (cases p) (simp_all add: subprocess_run_def)
  show ?thesis
  proof (cases "env_ffmpeg env")
    case (Completed stdout)
    with assms(8) show ?thesis by simp
  next
    case (CalledProcessError x)
    with assms(1-7) p show ?thesis
      by (simp add: upto_convert del: resolve_chat_title_world)
  next
    case FileNotFoundError
    with assms(1-7) p show ?thesis
      by (simp add: upto_convert del: resolve_chat_title_world)
  next
    case (OtherError x)
    with assms(1-7) p show ?thesis
      by (simp add: upto_convert del: resolve_chat_title_world)
  qed
qed

theorem transcoding_failure_returns_witness:
  "snd (handler_new_message demo_config (demo_env\<lparr>env_ffmpeg := subprocess_run NoSuchFile\<rparr>)
          demo_event demo_world) = FfmpegNotFound
   \<and> snd (handler_new_message demo_config
            (demo_env\<lparr>env_ffmpeg := subprocess_run (Executable 1 [] ''Invalid data found'')\<rparr>)
            demo_event demo_world) = ConvertFailed ''Invalid data found''
   \<and> Log ERROR ''Error converting to MP3: Invalid data found''
        \<in> set (trace (fst (handler_new_message demo_config
                   (demo_env\<lparr>env_ffmpeg :=
                                subprocess_run (Executable 1 [] ''Invalid data found'')\<rparr>)
                   demo_event demo_world)))
   \<and> filter is_after_transcode
        (trace (fst (handler_new_message demo_config
                   (demo_env\<lparr>env_ffmpeg :=
                                subprocess_run (Executable 1 [] ''Invalid data found'')\<rparr>)
                   demo_event demo_world))) = []
   \<and> snd (handler_new_message demo_config
            (demo_env\<lparr>env_ffmpeg := OtherError (Exn ''Exec format error'')\<rparr>)
            demo_event demo_world) = StageError (Exn ''Exec format error'')"
  using transcoding_failure_returns
          [where ev = demo_event and t = "''Hello world''"
             and env = "demo_env\<lparr>env_ffmpeg := subprocess_run NoSuchFile\<rparr>"
             and out = demo_output and cfg = demo_config and w = demo_world]
        transcoding_failure_returns
          [where ev = demo_event and t = "''Hello world''"
             and env = "demo_env\<lparr>env_ffmpeg :=
                                   subprocess_run (Executable 1 [] ''Invalid data found'')\<rparr>"
             and out = demo_output and cfg = demo_config and w = demo_world
             and err = "''Invalid data found''"]
        transcoding_failure_returns
          [where ev = demo_event and t = "''Hello world''"
             and env = "demo_env\<lparr>env_ffmpeg := OtherError (Exn ''Exec format error'')\<rparr>"
             and out = demo_output and cfg = demo_config and w = demo_world
             and e = "Exn ''Exec format error''"]
  by (simp add: demo_env_def demo_event_def demo_world_def demo_output_def nd_size_def
      squeeze_def subprocess_run_def)

text \<open>
  A file at the configured path that is not executable, and an unset path, do not resolve
  to an executable; with either, the run of the example does not end at the not-found
  return of line 136 but in the handler of line 145.
\<close>

theorem unresolvable_tool_path_without_not_found_return:
  "\<not> resolves NotExecutable
   \<and> snd (handler_new_message demo_config
            (demo_env\<lparr>env_ffmpeg := subprocess_run NotExecutable\<rparr>) demo_event demo_world)
       = StageError (Exn ''[Errno 13] Permission denied'')
   \<and> snd (handler_new_message demo_config
            (demo_env\<lparr>env_ffmpeg := subprocess_run NotExecutable\<rparr>) demo_event demo_world)
       \<noteq> FfmpegNotFound
   \<and> \<not> resolves PathUnset
   \<and> snd (handler_new_message (demo_config\<lparr>FFMPEG_PATH := PyNone\<rparr>)
            (demo_env\<lparr>env_ffmpeg := subprocess_run PathUnset\<rparr>) demo_event demo_world)
       = StageError (Exn ''expected str, bytes or os.PathLike object, not NoneType'')
   \<and> snd (handler_new_message (demo_config\<lparr>FFMPEG_PATH := PyNone\<rparr>)
            (demo_env\<lparr>env_ffmpeg := subprocess_run PathUnset\<rparr>) demo_event demo_world)
       \<noteq> FfmpegNotFound"
  by (simp add: handler_snd try_body_snd verify_wav_snd convert_to_mp3_snd demo_defs
      subprocess_run_def)

subsection \<open>Deleting the intermediate file\<close>

text \<open>
  C8. When the transcoder has completed and \<^verbatim>\<open>os.remove\<close> of the WAV file raises, the
  exception is logged at line 143 and the run goes on to the delivery: the target is
  resolved, how the run ends is decided by the delivery calls alone (it ends as sent when
  they succeed), and when the target resolves the MP3 file is handed to \<^verbatim>\<open>send_file\<close>.
\<close>

theorem wav_deletion_failure_is_only_logged:
  assumes "msg_text ev = Some t" and "t \<noteq> []"
    and "env_tts env = Inr out" and "nd_size (squeeze (audio out)) \<noteq> 0"
    and "env_sf_write env = WriteReturned True"
    and "env_wave_open env = None" and "env_access env"
    and "env_ffmpeg env = Completed stdout"
    and "env_remove env = Some e"
  shows "Log ERROR (''Error deleting WAV file: '' @ str_exn e)
           \<in> set (trace (fst (handler_new_message cfg env ev w)))
         \<and> GetEntityTarget TARGET_CHAT_ENTITY
             \<in> set (trace (fst (handler_new_message cfg env ev w)))
         \<and> snd (handler_new_message cfg env ev w) =
             (case env_target env of
                Inl x \<Rightarrow> SendError x
              | Inr target \<Rightarrow> (case env_send_file env of Some x \<Rightarrow> SendError x | None \<Rightarrow> Sent))
         \<and> (env_target env = Inr target \<longrightarrow>
              sent_files (trace (fst (handler_new_message cfg env ev w))) =
                sent_files (trace w) @
                  [(mp3_filepath (chat_id ev) (msg_id ev) (env_time env),
                    caption (fst (resolve_chat_title env ev w)) (msg_id ev))])"
  using assms
  by (simp add: upto_convert delete_wav_def send_audio_def del: resolve_chat_title_world
      split: sum.split option.split)

theorem wav_deletion_failure_is_only_logged_witness:
  "Log ERROR ''Error deleting WAV file: Permission denied''
     \<in> set (trace (fst (handler_new_message demo_config
                (demo_env\<lparr>env_remove := Some (Exn ''Permission denied'')\<rparr>)
                demo_event demo_world)))
   \<and> snd (handler_new_message demo_config
            (demo_env\<lparr>env_remove := Some (Exn ''Permission denied'')\<rparr>)
            demo_event demo_world) = Sent
   \<and> map fst (sent_files (trace (fst (handler_new_message demo_config
                (demo_env\<lparr>env_remove := Some (Exn ''Permission denied'')\<rparr>)
                demo_event demo_world))))
      = [mp3_filepath (- 1001114591086) 42 (6800000001 / 4)]"
  using wav_deletion_failure_is_only_logged
          [where ev = demo_event and t = "''Hello world''"
             and env = "demo_env\<lparr>env_remove := Some (Exn ''Permission denied'')\<rparr>"
             and out = demo_output and cfg = demo_config and stdout = "''size=1kB''"
             and e = "Exn ''Permission denied''" and w = demo_world and target = "''self''"]
  by (simp add: demo_env_def demo_event_def demo_world_def demo_output_def nd_size_def
      squeeze_def)

subsection \<open>A run that ends with the delivery\<close>

text \<open>
  C4, as the code has it. A run can end as sent while the WAV file is still on disk: when
  \<^verbatim>\<open>os.remove\<close> raises, lines 142--143 only log it (see C8). For a run that ends as sent
  and whose \<^verbatim>\<open>os.remove\<close> did not raise: the WAV file of the run is not on disk, its MP3 file
  is, the run has put no other file on disk, and it has made exactly one \<^verbatim>\<open>send_file\<close> call,
  for that MP3 file, with a caption that contains the channel title and the message id.
\<close>

theorem sent_run_with_removed_wav:
  assumes "snd (handler_new_message cfg env ev w) = Sent" and "env_remove env = None"
  shows "wav_filepath (cwd cfg) (chat_id ev) (msg_id ev) (env_time env)
           \<notin> files (fst (handler_new_message cfg env ev w))
         \<and> mp3_filepath (chat_id ev) (msg_id ev) (env_time env)
             \<in> files (fst (handler_new_message cfg env ev w))
         \<and> files (fst (handler_new_message cfg env ev w)) - files w
             \<subseteq> {mp3_filepath (chat_id ev) (msg_id ev) (env_time env)}
         \<and> sent_files (trace (fst (handler_new_message cfg env ev w))) =
             sent_files (trace w) @
               [(mp3_filepath (chat_id ev) (msg_id ev) (env_time env),
                 caption (fst (resolve_chat_title env ev w)) (msg_id ev))]
         \<and> sublist (str_pyval (fst (resolve_chat_title env ev w)))
              (caption (fst (resolve_chat_title env ev w)) (msg_id ev))
         \<and> sublist (str_int (msg_id ev))
              (caption (fst (resolve_chat_title env ev w)) (msg_id ev))"
proof -
  from assms(1) obtain t out stdout target where
    f: "msg_text ev = Some t" "t \<noteq> []" "env_tts env = Inr out"
       "nd_size (squeeze (audio out)) \<noteq> 0" "env_sf_write env = WriteReturned True"
       "env_wave_open env = None" "env_access env" "env_ffmpeg env = Completed stdout"
       "env_target env = Inr target" "env_send_file env = None"
    unfolding sent_iff by blast
  have fl: "files (fst (handler_new_message cfg env ev w)) =
      insert (mp3_filepath (chat_id ev) (msg_id ev) (env_time env)) (files w)
        - {wav_filepath (cwd cfg) (chat_id ev) (msg_id ev) (env_time env)}"
    using f assms(2) by (simp add: handler_files try_body_files)
  have sn: "sent_files (trace (fst (handler_new_message cfg env ev w))) =
             sent_files (trace w) @
               [(mp3_filepath (chat_id ev) (msg_id ev) (env_time env),
                 caption (fst (resolve_chat_title env ev w)) (msg_id ev))]"
    using f by (simp add: handler_sent try_body_snd verify_wav_snd convert_to_mp3_snd)
  have s1: "sublist (str_pyval (fst (resolve_chat_title env ev w)))
              (caption (fst (resolve_chat_title env ev w)) (msg_id ev))"
    unfolding caption_def by (metis append.assoc sublist_appendI)
  have s2: "sublist (str_int (msg_id ev))
              (caption (fst (resolve_chat_title env ev w)) (msg_id ev))"
    unfolding caption_def by (metis append.assoc sublist_appendI)
  from fl have "wav_filepath (cwd cfg) (chat_id ev) (msg_id ev) (env_time env)
           \<notin> files (fst (handler_new_message cfg env ev w))" by simp
  moreover from fl wav_ne_mp3[of "cwd cfg" "chat_id ev" "msg_id ev" "env_time env"
                                 "chat_id ev" "msg_id ev" "env_time env"]
  have "mp3_filepath (chat_id ev) (msg_id ev) (env_time env)
             \<in> files (fst (handler_new_message cfg env ev w))" by auto
  moreover from fl have "files (fst (handler_new_message cfg env ev w)) - files w
             \<subseteq> {mp3_filepath (chat_id ev) (msg_id ev) (env_time env)}" by auto
  ultimately show ?thesis using sn s1 s2 by simp
qed

theorem sent_run_with_removed_wav_witness:
  "snd (handler_new_message demo_config demo_env demo_event demo_world) = Sent
   \<and> env_remove demo_env = None
   \<and> demo_wav \<notin> files (fst (handler_new_message demo_config demo_env demo_event demo_world))
   \<and> demo_mp3 \<in> files (fst (handler_new_message demo_config demo_env demo_event demo_world))
   \<and> sent_files (trace (fst (handler_new_message demo_config demo_env demo_event demo_world)))
       = [(demo_mp3, caption (PyStr ''News'') 42)]"
proof -
  have s: "snd (handler_new_message demo_config demo_env demo_event demo_world) = Sent"
    by (simp add: sent_iff demo_defs)
  have r: "env_remove demo_env = None"
    by (simp add: demo_env_def)
  have t: "fst (resolve_chat_title demo_env demo_event demo_world) = PyStr ''News''"
    by (simp add: resolve_chat_title_def chat_title_of_def Let_def demo_defs)
  from sent_run_with_removed_wav [OF s r] s r show ?thesis
    by (simp add: t) (simp add: demo_defs demo_wav_path demo_mp3_path)
qed

text \<open>
  The run of the example in which \<^verbatim>\<open>os.remove\<close> raises ends as sent, and its WAV file is
  still on disk.
\<close>

theorem sent_run_may_keep_wav:
  "snd (handler_new_message demo_config
          (demo_env\<lparr>env_remove := Some (Exn ''Permission denied'')\<rparr>) demo_event demo_world)
     = Sent
   \<and> demo_wav \<in> files (fst (handler_new_message demo_config
          (demo_env\<lparr>env_remove := Some (Exn ''Permission denied'')\<rparr>) demo_event demo_world))"
proof -
  have "wav_filepath (cwd demo_config) (chat_id demo_event) (msg_id demo_event)
          (env_time (demo_env\<lparr>env_remove := Some (Exn ''Permission denied'')\<rparr>)) = demo_wav"
    by (simp add: demo_defs demo_wav_path)
  then have "demo_wav \<in> files (fst (handler_new_message demo_config
          (demo_env\<lparr>env_remove := Some (Exn ''Permission denied'')\<rparr>) demo_event demo_world))"
    by (simp add: handler_files try_body_files Let_def demo_defs demo_wav_path)
  moreover have "snd (handler_new_message demo_config
          (demo_env\<lparr>env_remove := Some (Exn ''Permission denied'')\<rparr>) demo_event demo_world)
     = Sent"
    by (simp add: sent_iff demo_defs)
  ultimately show ?thesis by simp
qed

subsection \<open>A run that fails after the WAV file was written\<close>

text \<open>
  C1 does not hold of the code. The only \<^verbatim>\<open>os.remove\<close> of the handler is at line 140, after a
  successful conversion; every return between the write and that line (lines 115, 120, 133,
  136, and the handler of line 145) leaves the function with the file in place. In the
  example, a transcoder that ends with a non-zero status and a file without read permission
  each leave the WAV file, which was not there before the run, on disk.
\<close>

theorem failed_run_leaves_wav_on_disk:
  "snd (handler_new_message demo_config
          (demo_env\<lparr>env_ffmpeg := CalledProcessError ''Invalid data found''\<rparr>)
          demo_event demo_world)
     = ConvertFailed ''Invalid data found''
   \<and> demo_wav \<notin> files demo_world
   \<and> demo_wav \<in> files (fst (handler_new_message demo_config
          (demo_env\<lparr>env_ffmpeg := CalledProcessError ''Invalid data found''\<rparr>)
          demo_event demo_world))
   \<and> snd (handler_new_message demo_config (demo_env\<lparr>env_access := False\<rparr>)
            demo_event demo_world) = WavNoPermission
   \<and> demo_wav \<in> files (fst (handler_new_message demo_config (demo_env\<lparr>env_access := False\<rparr>)
          demo_event demo_world))"
proof -
  have 1: "snd (handler_new_message demo_config
          (demo_env\<lparr>env_ffmpeg := CalledProcessError ''Invalid data found''\<rparr>)
          demo_event demo_world) = ConvertFailed ''Invalid data found''"
    by (simp add: handler_snd try_body_snd verify_wav_snd convert_to_mp3_snd demo_defs)
  have 2: "demo_wav \<notin> files demo_world"
    by (simp add: demo_world_def)
  have "wav_filepath (cwd demo_config) (chat_id demo_event) (msg_id demo_event)
          (env_time (demo_env\<lparr>env_ffmpeg := CalledProcessError ''Invalid data found''\<rparr>))
        = demo_wav"
    by (simp add: demo_defs demo_wav_path)
  then have 3: "demo_wav \<in> files (fst (handler_new_message demo_config
          (demo_env\<lparr>env_ffmpeg := CalledProcessError ''Invalid data found''\<rparr>)
          demo_event demo_world))"
    by (simp add: handler_files try_body_files Let_def demo_defs demo_wav_path)
  have 4: "snd (handler_new_message demo_config (demo_env\<lparr>env_access := False\<rparr>)
            demo_event demo_world) = WavNoPermission"
    by (simp add: handler_snd try_body_snd verify_wav_snd convert_to_mp3_snd demo_defs)
  have "wav_filepath (cwd demo_config) (chat_id demo_event) (msg_id demo_event)
          (env_time (demo_env\<lparr>env_access := False\<rparr>)) = demo_wav"
    by (simp add: demo_defs demo_wav_path)
  then have 5: "demo_wav \<in> files (fst (handler_new_message demo_config
          (demo_env\<lparr>env_access := False\<rparr>) demo_event demo_world))"
    by (simp add: handler_files try_body_files Let_def demo_defs demo_wav_path)
  from 1 2 3 4 5 show ?thesis by simp
qed

subsection \<open>The channel title\<close>



subsection \<open>Distinct runs and their file names\<close>

text \<open>
  C2, as the code has it. The name holds the clock reading truncated to whole seconds and
  nothing finer, so the WAV paths of two runs are equal exactly when the runs agree on the
  absolute value of the channel id, on the message id and on the second of the clock
  reading. Runs that differ in one of the three have distinct paths; two runs on the same
  message within one second have the same path.
\<close>

theorem wav_filepath_equal_iff:
  "wav_filepath d c m t = wav_filepath d c' m' t' \<longleftrightarrow>
     \<bar>c\<bar> = \<bar>c'\<bar> \<and> m = m' \<and> int_of_float t = int_of_float t'"
  by (simp add: wav_filepath_eq base_filename_inj)

text \<open>
  Two clock readings half a second apart, within the same second, give one and the same
  path for the same channel and message.
\<close>

theorem same_second_same_wav_path:
  "(6800000001 / 4 :: rat) \<noteq> 6800000003 / 4
   \<and> int_of_float (6800000001 / 4) = int_of_float (6800000003 / 4)
   \<and> wav_filepath ''/home/bot'' (- 1001114591086) 42 (6800000001 / 4)
       = wav_filepath ''/home/bot'' (- 1001114591086) 42 (6800000003 / 4)"
  by (simp add: wav_filepath_eq base_filename_def int_of_float_demo int_of_float_demo')

subsection \<open>Start of the process\<close>

text \<open>
  C3, as the code has it. Provided the module level has run through (the imports and the
  credentials, the TTS pipeline, the output directory): when the version check of the
  transcoder does not complete, the process exits with status 1 and the client is never
  started nor waited on; when the check has passed, the client has started and the channel
  list is empty, \<^verbatim>\<open>main\<close> returns without waiting for messages, which is after
  \<^verbatim>\<open>client.start\<close>, and the process ends with status 0.
\<close>

theorem startup_exit_status:
  assumes "be_import be = None" and "be_tts_load be = None"
    and "be_dir_exists be \<or> be_makedirs be = None"
  shows "((\<forall>out. be_ffmpeg_version be \<noteq> Completed out) \<longrightarrow>
            fst (run_script be channels) = Exit 1
            \<and> ClientStart \<notin> set (snd (run_script be channels))
            \<and> RunUntilDisconnected \<notin> set (snd (run_script be channels)))
         \<and> ((\<exists>out. out \<noteq> [] \<and> be_ffmpeg_version be = Completed out)
              \<and> be_client_start be = None \<and> channels = [] \<longrightarrow>
            fst (run_script be channels) = Exit 0
            \<and> ClientStart \<in> set (snd (run_script be channels))
            \<and> RunUntilDisconnected \<notin> set (snd (run_script be channels)))"
proof (intro conjI impI)
  assume a: "\<forall>out. be_ffmpeg_version be \<noteq> Completed out"
  then show "fst (run_script be channels) = Exit 1"
    using assms by (cases "be_ffmpeg_version be") (auto simp add: run_script_def Let_def)
  from a show "ClientStart \<notin> set (snd (run_script be channels))"
    using assms by (cases "be_ffmpeg_version be") (auto simp add: run_script_def Let_def)
  from a show "RunUntilDisconnected \<notin> set (snd (run_script be channels))"
    using assms by (cases "be_ffmpeg_version be") (auto simp add: run_script_def Let_def)
next
  assume b: "(\<exists>out. out \<noteq> [] \<and> be_ffmpeg_version be = Completed out)
              \<and> be_client_start be = None \<and> channels = []"
  then show "fst (run_script be channels) = Exit 0"
    using assms by (auto simp add: run_script_def main_def Let_def)
  from b show "ClientStart \<in> set (snd (run_script be channels))"
    using assms by (auto simp add: run_script_def main_def Let_def)
  from b show "RunUntilDisconnected \<notin> set (snd (run_script be channels))"
    using assms by (auto simp add: run_script_def main_def Let_def)
qed

theorem startup_exit_status_witness:
  "fst (run_script (demo_boot\<lparr>be_ffmpeg_version := FileNotFoundError\<rparr>) CHANNELS_TO_MONITOR)
     = Exit 1
   \<and> ClientStart
       \<notin> set (snd (run_script (demo_boot\<lparr>be_ffmpeg_version := FileNotFoundError\<rparr>)
                      CHANNELS_TO_MONITOR))
   \<and> fst (run_script demo_boot []) = Exit 0
   \<and> ClientStart \<in> set (snd (run_script demo_boot []))
   \<and> RunUntilDisconnected \<notin> set (snd (run_script demo_boot []))"
  using startup_exit_status [where be = "demo_boot\<lparr>be_ffmpeg_version := FileNotFoundError\<rparr>"
              and channels = CHANNELS_TO_MONITOR]
        startup_exit_status [where be = demo_boot and channels = "[]"]
  by (simp add: demo_boot_def)

text \<open>
  With an empty channel list and everything else in order the process ends with status 0,
  after the client was started; and when loading the TTS pipeline fails, \<^verbatim>\<open>exit()\<close> at line
  53 ends the process with status 0 before the transcoder is looked at, whether or not it
  can be found.
\<close>

theorem empty_channel_list_exits_zero:
  "fst (run_script demo_boot []) = Exit 0
   \<and> ClientStart \<in> set (snd (run_script demo_boot []))
   \<and> fst (run_script (demo_boot\<lparr>be_tts_load := Some (Exn ''model not found''),
                                 be_ffmpeg_version := FileNotFoundError\<rparr>)
             CHANNELS_TO_MONITOR) = Exit 0"
  by (simp add: run_script_def main_def Let_def demo_boot_def)

end
